theory Spec2Isabelle
  imports Complex_Main "HOL-Library.AList" "HOL-Library.Monad_Syntax"
begin

section \<open>Python values\<close>

text \<open>
  The client moves Python objects around: strings, numbers, dates, lists and dicts.
  A dict keeps its keys in insertion order, so it is an association list whose keys are
  looked up with \<open>map_of\<close> and assigned with \<open>AList.update\<close> (an existing key keeps its
  place, a new key goes to the end, as in Python).
  A float is a finite real or one of the three special values; only its sign and its
  truth value are ever inspected.
\<close>

datatype date = Date (year: nat) (month: nat) (day: nat)

datatype pyfloat = Finite real | PosInf | NegInf | NaN

datatype pyvalue =
    PNone
  | PBool bool
  | PInt int
  | PFloat pyfloat
  | PStr string
  | PDate date
  | PList "pyvalue list"
  | PDict "(string \<times> pyvalue) list"

type_synonym dict = "(string \<times> pyvalue) list"

text \<open>Python's truth value of an object (\<open>bool(x)\<close>), used by \<open>if x\<close> and \<open>x or y\<close>.\<close>

definition truthy :: "pyvalue \<Rightarrow> bool" where
  "truthy v =
     (case v of
        PNone \<Rightarrow> False
      | PBool b \<Rightarrow> b
      | PInt i \<Rightarrow> i \<noteq> 0
      | PFloat f \<Rightarrow> f \<noteq> Finite 0
      | PStr s \<Rightarrow> s \<noteq> []
      | PDate d \<Rightarrow> True
      | PList xs \<Rightarrow> xs \<noteq> []
      | PDict d \<Rightarrow> d \<noteq> [])"

section \<open>The store of dict objects\<close>

text \<open>
  Dicts are mutable and passed by reference, and \<open>_make_request\<close> assigns into dicts.
  The store holds every dict object; a reference is an index into it. Allocation appends,
  so a reference once handed out stays valid.
\<close>

type_synonym addr = nat
type_synonym heap = "dict list"

definition deref :: "heap \<Rightarrow> addr \<Rightarrow> dict" where
  "deref h a = h ! a"

definition alloc :: "heap \<Rightarrow> dict \<Rightarrow> addr \<times> heap" where
  "alloc h d = (length h, h @ [d])"

text \<open>\<open>d[k] = v\<close> on the dict object at \<open>a\<close>.\<close>

definition setitem :: "heap \<Rightarrow> addr \<Rightarrow> string \<Rightarrow> pyvalue \<Rightarrow> heap" where
  "setitem h a k v = h[a := AList.update k v (h ! a)]"

text \<open>An optional argument is \<open>None\<close> or a reference to a live dict.\<close>

definition valid_ref :: "heap \<Rightarrow> addr option \<Rightarrow> bool" where
  "valid_ref h r = (case r of None \<Rightarrow> True | Some a \<Rightarrow> a < length h)"

section \<open>errors.py\<close>

datatype error_class =
    FakturowniaAPIException
  | AuthenticationError
  | ValidationError
  | ResourceNotFoundError
  | ServerError

text \<open>
  The three message texts of \<open>_make_request\<close>; the last one is formatted from the
  status code and the response text.
\<close>

datatype message = NetworkErrorMsg | DecodeErrorMsg | ApiErrorMsg int string

record api_error =
  err_class :: error_class
  err_message :: message
  err_status_code :: "int option"
  err_details :: pyvalue

text \<open>
  \<open>FakturowniaAPIException.__init__(message, status_code=None, details=None)\<close>, inherited
  by every subclass: \<open>self.details = details or {}\<close>.
\<close>

definition init_error :: "error_class \<Rightarrow> message \<Rightarrow> int option \<Rightarrow> pyvalue \<Rightarrow> api_error" where
  "init_error cls msg status_code details =
     \<lparr>err_class = cls, err_message = msg, err_status_code = status_code,
      err_details = (if truthy details then details else PDict [])\<rparr>"

text \<open>
  Everything a call can raise: an error of the taxonomy, or one of the exceptions that
  are not part of it.
\<close>

datatype exn =
    Api api_error
  | JSONDecodeError
  | TypeError
  | PydanticValidationError

section \<open>models.py\<close>

subsection \<open>Constants and field types\<close>

datatype DocumentKind =
    Vat | Proforma | Correction | Advance | Final | Cost | AccountingNote

definition all_kinds :: "DocumentKind list" where
  "all_kinds = [Vat, Proforma, Correction, Advance, Final, Cost, AccountingNote]"

text \<open>The literal of each kind, as \<open>DocumentKind = Literal[...]\<close> lists them.\<close>

fun kind_literal :: "DocumentKind \<Rightarrow> string" where
  "kind_literal Vat = ''vat''"
| "kind_literal Proforma = ''proforma''"
| "kind_literal Correction = ''correction''"
| "kind_literal Advance = ''advance''"
| "kind_literal Final = ''final''"
| "kind_literal Cost = ''cost''"
| "kind_literal AccountingNote = ''accounting_note''"

definition VOID_STATUS :: string where
  "VOID_STATUS = ''anulowana''"

text \<open>\<open>Union[int, float]\<close>, \<open>Union[str, float]\<close> and \<open>VatRate = Union[int, float, str]\<close>.\<close>

datatype number = NInt int | NFloat pyfloat

datatype price = PriceStr string | PriceFloat pyfloat

datatype VatRate = VatInt int | VatFloat pyfloat | VatStr string

subsection \<open>The three models\<close>

text \<open>
  A field declared \<open>Optional[T]\<close> holds \<open>None\<close> or a value. Field names carry the
  prefix of their model, since the three models share names.
\<close>

record CorrectionAttributesDTO =
  ca_name :: "string option"
  ca_quantity :: "number option"
  ca_total_price_gross :: "price option"
  ca_tax :: "pyfloat option"
  ca_kind :: "string option"

text \<open>
  Modelled from the spec: the type of \<open>correction_before_attributes\<close> and
  \<open>correction_after_attributes\<close> is missing from the source, which reads
  \<open>Optional = None\<close>. The specification calls them optional before/after correction
  snapshots, described by CorrectionAttributes.
\<close>

record InvoicePositionDTO =
  pos_id :: "int option"
  pos_name :: string
  pos_quantity :: number
  pos_total_price_gross :: price
  pos_tax :: VatRate
  pos_kind :: "string option"
  pos_correction_before_attributes :: "CorrectionAttributesDTO option"
  pos_correction_after_attributes :: "CorrectionAttributesDTO option"

record InvoiceDTO =
  inv_kind :: DocumentKind
  inv_sell_date :: date
  inv_issue_date :: date
  inv_seller_name :: "string option"
  inv_seller_tax_no :: "string option"
  inv_buyer_name :: "string option"
  inv_buyer_tax_no :: "string option"
  inv_buyer_email :: "string option"
  inv_payment_to :: "date option"
  inv_payment_method :: "string option"
  inv_positions :: "InvoicePositionDTO list"
  inv_correction_reason :: "string option"
  inv_invoice_id :: "int option"
  inv_from_invoice_id :: "int option"
  inv_id :: "int option"
  inv_created_at :: "string option"
  inv_updated_at :: "string option"
  inv_invoice_url :: "string option"

subsection \<open>Validation of one field\<close>

text \<open>
  Validation is pydantic's. A field takes the values of its declared type, and an int
  where only a float is declared. The further conversions of pydantic's lax mode (a
  numeric string for a number, a timestamp or an ISO string for a date) are left out:
  no property below rests on such an input being refused.
  A converter gives \<open>None\<close> for a value the field does not take.
\<close>

definition as_str :: "pyvalue \<Rightarrow> string option" where
  "as_str v = (case v of PStr s \<Rightarrow> Some s | _ \<Rightarrow> None)"

definition as_int :: "pyvalue \<Rightarrow> int option" where
  "as_int v = (case v of PInt i \<Rightarrow> Some i | _ \<Rightarrow> None)"

definition as_float :: "pyvalue \<Rightarrow> pyfloat option" where
  "as_float v = (case v of PFloat f \<Rightarrow> Some f | PInt i \<Rightarrow> Some (Finite (of_int i)) | _ \<Rightarrow> None)"

definition as_date :: "pyvalue \<Rightarrow> date option" where
  "as_date v = (case v of PDate d \<Rightarrow> Some d | _ \<Rightarrow> None)"

definition as_number :: "pyvalue \<Rightarrow> number option" where
  "as_number v = (case v of PInt i \<Rightarrow> Some (NInt i) | PFloat f \<Rightarrow> Some (NFloat f) | _ \<Rightarrow> None)"

definition as_price :: "pyvalue \<Rightarrow> price option" where
  "as_price v =
     (case v of
        PStr s \<Rightarrow> Some (PriceStr s)
      | PFloat f \<Rightarrow> Some (PriceFloat f)
      | PInt i \<Rightarrow> Some (PriceFloat (Finite (of_int i)))
      | _ \<Rightarrow> None)"

definition as_vat_rate :: "pyvalue \<Rightarrow> VatRate option" where
  "as_vat_rate v =
     (case v of
        PInt i \<Rightarrow> Some (VatInt i)
      | PFloat f \<Rightarrow> Some (VatFloat f)
      | PStr s \<Rightarrow> Some (VatStr s)
      | _ \<Rightarrow> None)"

definition as_kind :: "pyvalue \<Rightarrow> DocumentKind option" where
  "as_kind v = (case v of PStr s \<Rightarrow> find (\<lambda>k. kind_literal k = s) all_kinds | _ \<Rightarrow> None)"

text \<open>The constraint \<open>gt=0\<close>. A comparison with NaN is false.\<close>

definition gt0 :: "number \<Rightarrow> bool" where
  "gt0 q =
     (case q of
        NInt i \<Rightarrow> 0 < i
      | NFloat f \<Rightarrow> (case f of Finite r \<Rightarrow> 0 < r | PosInf \<Rightarrow> True | NegInf \<Rightarrow> False | NaN \<Rightarrow> False))"

text \<open>
  A required field fails when its key is missing. An optional field takes its default
  when the key is missing, and \<open>None\<close> when the value is \<open>None\<close>.
\<close>

definition required :: "(pyvalue \<Rightarrow> 'a option) \<Rightarrow> pyvalue option \<Rightarrow> 'a option" where
  "required conv v = (case v of None \<Rightarrow> None | Some x \<Rightarrow> conv x)"

definition optional :: "(pyvalue \<Rightarrow> 'a option) \<Rightarrow> 'a option \<Rightarrow> pyvalue option \<Rightarrow> 'a option option" where
  "optional conv dflt v =
     (case v of
        None \<Rightarrow> Some dflt
      | Some PNone \<Rightarrow> Some None
      | Some x \<Rightarrow> map_option Some (conv x))"

subsection \<open>Validation of a model\<close>

text \<open>
  \<open>Model(**data)\<close> and \<open>Model.model_validate(data)\<close> run the same validation of the
  fields of \<open>data\<close>; keys that are not fields are ignored. \<open>None\<close> stands for pydantic's
  \<open>ValidationError\<close>. Nested models are given as dicts.
\<close>

definition CorrectionAttributesDTO_validate :: "dict \<Rightarrow> CorrectionAttributesDTO option" where
  "CorrectionAttributesDTO_validate data = do {
     name \<leftarrow> optional as_str None (map_of data ''name'');
     quantity \<leftarrow> optional as_number None (map_of data ''quantity'');
     total_price_gross \<leftarrow> optional as_price None (map_of data ''total_price_gross'');
     tax \<leftarrow> optional as_float (Some (Finite 23)) (map_of data ''tax'');
     kind \<leftarrow> optional as_str (Some ''correction_before'') (map_of data ''kind'');
     Some \<lparr>ca_name = name, ca_quantity = quantity, ca_total_price_gross = total_price_gross,
           ca_tax = tax, ca_kind = kind\<rparr>
   }"

definition as_correction :: "pyvalue \<Rightarrow> CorrectionAttributesDTO option" where
  "as_correction v = (case v of PDict d \<Rightarrow> CorrectionAttributesDTO_validate d | _ \<Rightarrow> None)"

definition InvoicePositionDTO_validate :: "dict \<Rightarrow> InvoicePositionDTO option" where
  "InvoicePositionDTO_validate data = do {
     ident \<leftarrow> optional as_int None (map_of data ''id'');
     name \<leftarrow> required as_str (map_of data ''name'');
     quantity \<leftarrow> required as_number (map_of data ''quantity'');
     total_price_gross \<leftarrow> required as_price (map_of data ''total_price_gross'');
     tax \<leftarrow> required as_vat_rate (map_of data ''tax'');
     kind \<leftarrow> optional as_str None (map_of data ''kind'');
     before \<leftarrow> optional as_correction None (map_of data ''correction_before_attributes'');
     after \<leftarrow> optional as_correction None (map_of data ''correction_after_attributes'');
     if gt0 quantity then
       Some \<lparr>pos_id = ident, pos_name = name, pos_quantity = quantity,
             pos_total_price_gross = total_price_gross, pos_tax = tax, pos_kind = kind,
             pos_correction_before_attributes = before,
             pos_correction_after_attributes = after\<rparr>
     else None
   }"

definition as_position :: "pyvalue \<Rightarrow> InvoicePositionDTO option" where
  "as_position v = (case v of PDict d \<Rightarrow> InvoicePositionDTO_validate d | _ \<Rightarrow> None)"

text \<open>\<open>conlist(InvoicePositionDTO, min_length=1)\<close>.\<close>

definition as_positions :: "pyvalue \<Rightarrow> InvoicePositionDTO list option" where
  "as_positions v =
     (case v of
        PList xs \<Rightarrow> if length xs < 1 then None else those (map as_position xs)
      | _ \<Rightarrow> None)"

definition InvoiceDTO_validate :: "dict \<Rightarrow> InvoiceDTO option" where
  "InvoiceDTO_validate data = do {
     kind \<leftarrow> required as_kind (map_of data ''kind'');
     sell_date \<leftarrow> required as_date (map_of data ''sell_date'');
     issue_date \<leftarrow> required as_date (map_of data ''issue_date'');
     seller_name \<leftarrow> optional as_str None (map_of data ''seller_name'');
     seller_tax_no \<leftarrow> optional as_str None (map_of data ''seller_tax_no'');
     buyer_name \<leftarrow> optional as_str None (map_of data ''buyer_name'');
     buyer_tax_no \<leftarrow> optional as_str None (map_of data ''buyer_tax_no'');
     buyer_email \<leftarrow> optional as_str None (map_of data ''buyer_email'');
     payment_to \<leftarrow> optional as_date None (map_of data ''payment_to'');
     payment_method \<leftarrow> optional as_str (Some ''Przelew'') (map_of data ''payment_method'');
     positions \<leftarrow> required as_positions (map_of data ''positions'');
     correction_reason \<leftarrow> optional as_str None (map_of data ''correction_reason'');
     invoice_id \<leftarrow> optional as_int None (map_of data ''invoice_id'');
     from_invoice_id \<leftarrow> optional as_int None (map_of data ''from_invoice_id'');
     ident \<leftarrow> optional as_int None (map_of data ''id'');
     created_at \<leftarrow> optional as_str None (map_of data ''created_at'');
     updated_at \<leftarrow> optional as_str None (map_of data ''updated_at'');
     invoice_url \<leftarrow> optional as_str None (map_of data ''invoice_url'');
     Some \<lparr>inv_kind = kind, inv_sell_date = sell_date, inv_issue_date = issue_date,
           inv_seller_name = seller_name, inv_seller_tax_no = seller_tax_no,
           inv_buyer_name = buyer_name, inv_buyer_tax_no = buyer_tax_no,
           inv_buyer_email = buyer_email, inv_payment_to = payment_to,
           inv_payment_method = payment_method, inv_positions = positions,
           inv_correction_reason = correction_reason, inv_invoice_id = invoice_id,
           inv_from_invoice_id = from_invoice_id, inv_id = ident,
           inv_created_at = created_at, inv_updated_at = updated_at,
           inv_invoice_url = invoice_url\<rparr>
   }"

text \<open>The constructors \<open>InvoicePositionDTO(**data)\<close> and \<open>InvoiceDTO(**data)\<close>.\<close>

definition InvoicePositionDTO_init :: "dict \<Rightarrow> exn + InvoicePositionDTO" where
  "InvoicePositionDTO_init data =
     (case InvoicePositionDTO_validate data of
        None \<Rightarrow> Inl PydanticValidationError
      | Some p \<Rightarrow> Inr p)"

definition InvoiceDTO_init :: "dict \<Rightarrow> exn + InvoiceDTO" where
  "InvoiceDTO_init data =
     (case InvoiceDTO_validate data of
        None \<Rightarrow> Inl PydanticValidationError
      | Some d \<Rightarrow> Inr d)"

text \<open>\<open>InvoiceDTO.model_validate(obj)\<close> on a decoded response.\<close>

definition InvoiceDTO_model_validate :: "pyvalue \<Rightarrow> exn + InvoiceDTO" where
  "InvoiceDTO_model_validate obj =
     (case obj of
        PDict data \<Rightarrow> InvoiceDTO_init data
      | _ \<Rightarrow> Inl PydanticValidationError)"

subsection \<open>Serialisation\<close>

text \<open>
  \<open>model_dump(by_alias=True, exclude_none=True)\<close>: the fields in the order of their
  declaration, under their own names (no field declares an alias), without the fields
  that hold \<open>None\<close> and without the field declared with \<open>exclude=True\<close>. Values stay
  Python objects: a date is dumped as a date.
\<close>

definition entry :: "string \<Rightarrow> pyvalue option \<Rightarrow> dict" where
  "entry k v = (case v of None \<Rightarrow> [] | Some x \<Rightarrow> [(k, x)])"

definition number_value :: "number \<Rightarrow> pyvalue" where
  "number_value q = (case q of NInt i \<Rightarrow> PInt i | NFloat f \<Rightarrow> PFloat f)"

definition price_value :: "price \<Rightarrow> pyvalue" where
  "price_value p = (case p of PriceStr s \<Rightarrow> PStr s | PriceFloat f \<Rightarrow> PFloat f)"

definition vat_rate_value :: "VatRate \<Rightarrow> pyvalue" where
  "vat_rate_value t = (case t of VatInt i \<Rightarrow> PInt i | VatFloat f \<Rightarrow> PFloat f | VatStr s \<Rightarrow> PStr s)"

definition CorrectionAttributesDTO_model_dump :: "CorrectionAttributesDTO \<Rightarrow> dict" where
  "CorrectionAttributesDTO_model_dump c =
     entry ''name'' (map_option PStr (ca_name c)) @
     entry ''quantity'' (map_option number_value (ca_quantity c)) @
     entry ''total_price_gross'' (map_option price_value (ca_total_price_gross c)) @
     entry ''tax'' (map_option PFloat (ca_tax c))"

definition InvoicePositionDTO_model_dump :: "InvoicePositionDTO \<Rightarrow> dict" where
  "InvoicePositionDTO_model_dump p =
     entry ''id'' (map_option PInt (pos_id p)) @
     [(''name'', PStr (pos_name p)),
      (''quantity'', number_value (pos_quantity p)),
      (''total_price_gross'', price_value (pos_total_price_gross p)),
      (''tax'', vat_rate_value (pos_tax p))] @
     entry ''kind'' (map_option PStr (pos_kind p)) @
     entry ''correction_before_attributes''
       (map_option (PDict \<circ> CorrectionAttributesDTO_model_dump) (pos_correction_before_attributes p)) @
     entry ''correction_after_attributes''
       (map_option (PDict \<circ> CorrectionAttributesDTO_model_dump) (pos_correction_after_attributes p))"

definition InvoiceDTO_model_dump :: "InvoiceDTO \<Rightarrow> dict" where
  "InvoiceDTO_model_dump d =
     [(''kind'', PStr (kind_literal (inv_kind d))),
      (''sell_date'', PDate (inv_sell_date d)),
      (''issue_date'', PDate (inv_issue_date d))] @
     entry ''seller_name'' (map_option PStr (inv_seller_name d)) @
     entry ''seller_tax_no'' (map_option PStr (inv_seller_tax_no d)) @
     entry ''buyer_name'' (map_option PStr (inv_buyer_name d)) @
     entry ''buyer_tax_no'' (map_option PStr (inv_buyer_tax_no d)) @
     entry ''buyer_email'' (map_option PStr (inv_buyer_email d)) @
     entry ''payment_to'' (map_option PDate (inv_payment_to d)) @
     entry ''payment_method'' (map_option PStr (inv_payment_method d)) @
     [(''positions'', PList (map (PDict \<circ> InvoicePositionDTO_model_dump) (inv_positions d)))] @
     entry ''correction_reason'' (map_option PStr (inv_correction_reason d)) @
     entry ''invoice_id'' (map_option PInt (inv_invoice_id d)) @
     entry ''from_invoice_id'' (map_option PInt (inv_from_invoice_id d)) @
     entry ''id'' (map_option PInt (inv_id d)) @
     entry ''created_at'' (map_option PStr (inv_created_at d)) @
     entry ''updated_at'' (map_option PStr (inv_updated_at d)) @
     entry ''invoice_url'' (map_option PStr (inv_invoice_url d))"

section \<open>api\_client.py: the dispatcher\<close>

record client =
  base_url :: string
  api_token :: string
  timeout :: int

text \<open>\<open>FakturowniaApiClient.__init__(domain, api_token, request_timeout=10)\<close>.\<close>

definition init_client :: "string \<Rightarrow> string \<Rightarrow> int \<Rightarrow> client" where
  "init_client domain tok request_timeout =
     \<lparr>base_url = ''https://'' @ domain @ ''.fakturownia.pl'',
      api_token = tok, timeout = request_timeout\<rparr>"

text \<open>What \<open>session.request\<close> is called with.\<close>

record request =
  req_method :: string
  req_url :: string
  req_params :: dict
  req_json :: dict
  req_timeout :: int

text \<open>
  What \<open>session.request\<close> gives back. \<open>json\<close> is the result of \<open>response.json()\<close>:
  \<open>None\<close> when the body does not decode and the method raises
  \<open>requests.JSONDecodeError\<close>.
\<close>

record response =
  status_code :: int
  content :: string
  body_text :: string
  json :: "pyvalue option"

datatype transport = RequestException | Response response

text \<open>
  The HTTP session is the environment: a function from the request to what comes back.
  It reads the request and leaves the caller's objects alone.
\<close>

type_synonym session = "request \<Rightarrow> transport"

text \<open>
  Modelled from the spec: the two method lists of \<open>_make_request\<close> are missing from the
  source, which reads \<open>if method in:\<close> and \<open>elif method in:\<close>. The comments above the
  two tests name the methods (POST, PUT for the body; GET, DELETE for the query
  string), and so does the specification.
\<close>

definition body_token_methods :: "string list" where
  "body_token_methods = [''POST'', ''PUT'']"

definition query_token_methods :: "string list" where
  "query_token_methods = [''GET'', ''DELETE'']"

text \<open>\<open>x.copy() if x else {}\<close>: a new dict object in both cases.\<close>

definition copy_or_empty :: "heap \<Rightarrow> addr option \<Rightarrow> addr \<times> heap" where
  "copy_or_empty h x =
     (case x of
        None \<Rightarrow> alloc h []
      | Some a \<Rightarrow> if deref h a \<noteq> [] then alloc h (deref h a) else alloc h [])"

text \<open>
  Lines 104 to 127: the copies, the injection of the token and the request handed to
  the session. The result is the store after the assignments and the request.
  (The source's test \<open>request_json is None\<close> never holds after the copy.)
\<close>

definition prepare_request ::
  "client \<Rightarrow> heap \<Rightarrow> string \<Rightarrow> string \<Rightarrow> addr option \<Rightarrow> addr option \<Rightarrow> heap \<times> request" where
  "prepare_request self h method endpoint request_params json_data =
     (let full_url = base_url self @ endpoint;
          (rp, h1) = copy_or_empty h request_params;
          (rj, h2) = copy_or_empty h1 json_data;
          h3 = (if method \<in> set body_token_methods
                  then setitem h2 rj ''api_token'' (PStr (api_token self))
                else if method \<in> set query_token_methods
                  then setitem h2 rp ''api_token'' (PStr (api_token self))
                else h2)
      in (h3, \<lparr>req_method = method, req_url = full_url, req_params = deref h3 rp,
               req_json = deref h3 rj, req_timeout = timeout self\<rparr>))"

text \<open>Lines 133 to 155: from the response to the returned value or the raised exception.\<close>

definition handle_response :: "response \<Rightarrow> exn + pyvalue" where
  "handle_response r =
     (if 200 \<le> status_code r \<and> status_code r < 300 then
        (if status_code r = 204 \<or> content r = [] then Inr PNone
         else (case json r of
                 Some v \<Rightarrow> Inr v
               | None \<Rightarrow> Inl (Api (init_error FakturowniaAPIException DecodeErrorMsg None PNone))))
      else
        (case (if content r \<noteq> [] then json r else Some PNone) of
           None \<Rightarrow> Inl JSONDecodeError
         | Some error_details \<Rightarrow>
             (let error_message = ApiErrorMsg (status_code r) (body_text r) in
              if status_code r = 400 then
                Inl (Api (init_error ValidationError error_message (Some (status_code r)) error_details))
              else if status_code r = 401 \<or> status_code r = 403 then
                Inl (Api (init_error AuthenticationError error_message (Some (status_code r)) error_details))
              else if status_code r = 404 then
                Inl (Api (init_error ResourceNotFoundError error_message (Some (status_code r)) error_details))
              else if 500 \<le> status_code r \<and> status_code r < 600 then
                Inl (Api (init_error ServerError error_message (Some (status_code r)) error_details))
              else
                Inl (Api (init_error FakturowniaAPIException error_message (Some (status_code r)) error_details)))))"

text \<open>
  The outcome of a call: the store afterwards, the requests handed to the session (none
  or one) and the value returned or the exception raised.
\<close>

record 'a outcome =
  heap_after :: heap
  sent :: "request list"
  result :: "exn + 'a"

text \<open>\<open>FakturowniaApiClient._make_request(method, endpoint, request_params=None, json_data=None)\<close>.\<close>

definition make_request ::
  "client \<Rightarrow> session \<Rightarrow> heap \<Rightarrow> string \<Rightarrow> string \<Rightarrow> addr option \<Rightarrow> addr option \<Rightarrow> pyvalue outcome" where
  "make_request self sess h method endpoint request_params json_data =
     (let (h', req) = prepare_request self h method endpoint request_params json_data
      in \<lparr>heap_after = h', sent = [req],
          result = (case sess req of
                      RequestException \<Rightarrow>
                        Inl (Api (init_error FakturowniaAPIException NetworkErrorMsg None PNone))
                    | Response r \<Rightarrow> handle_response r)\<rparr>)"

section \<open>api\_client.py: the invoices endpoint\<close>

subsection \<open>Formatting\<close>

text \<open>\<open>str(n)\<close> for an int, as the f-strings of the endpoints format the invoice id.\<close>

definition digit :: "nat \<Rightarrow> char" where
  "digit n = ''0123456789'' ! (n mod 10)"

fun str_nat :: "nat \<Rightarrow> string" where
  "str_nat n = (if n < 10 then [digit n] else str_nat (n div 10) @ [digit n])"

declare str_nat.simps [simp del]

definition str_int :: "int \<Rightarrow> string" where
  "str_int i = (if i < 0 then ''-'' @ str_nat (nat (- i)) else str_nat (nat i))"

definition zfill :: "nat \<Rightarrow> string \<Rightarrow> string" where
  "zfill w s = replicate (w - length s) (CHR ''0'') @ s"

text \<open>\<open>date.isoformat()\<close>: \<open>YYYY-MM-DD\<close>.\<close>

definition isoformat :: "date \<Rightarrow> string" where
  "isoformat d =
     zfill 4 (str_nat (year d)) @ ''-'' @ zfill 2 (str_nat (month d)) @ ''-'' @ zfill 2 (str_nat (day d))"

subsection \<open>Calling the dispatcher\<close>

text \<open>
  The endpoints pass the optional arguments of \<open>_make_request\<close> by keyword. Its
  signature is \<open>(self, method, endpoint, request_params=None, json_data=None)\<close>, with
  no \<open>**kwargs\<close>: a keyword that is not one of the two names makes the call raise
  \<open>TypeError\<close> before the body of \<open>_make_request\<close> runs.
\<close>

definition call_make_request ::
  "client \<Rightarrow> session \<Rightarrow> heap \<Rightarrow> string \<Rightarrow> string \<Rightarrow> (string \<times> addr) list \<Rightarrow> pyvalue outcome" where
  "call_make_request self sess h method endpoint keywords =
     (if list_all (\<lambda>k. k = ''request_params'' \<or> k = ''json_data'') (map fst keywords)
      then make_request self sess h method endpoint
             (map_of keywords ''request_params'') (map_of keywords ''json_data'')
      else \<lparr>heap_after = h, sent = [], result = Inl TypeError\<rparr>)"

text \<open>What an endpoint does with the value returned; an exception passes through.\<close>

definition and_then :: "'a outcome \<Rightarrow> ('a \<Rightarrow> exn + 'b) \<Rightarrow> 'b outcome" where
  "and_then out f =
     \<lparr>heap_after = heap_after out, sent = sent out,
      result = (case result out of Inl e \<Rightarrow> Inl e | Inr v \<Rightarrow> f v)\<rparr>"

subsection \<open>InvoicesEndpoint\<close>

definition endpoint_base :: string where
  "endpoint_base = ''/invoices.json''"

definition create_invoice :: "client \<Rightarrow> session \<Rightarrow> heap \<Rightarrow> InvoiceDTO \<Rightarrow> InvoiceDTO outcome" where
  "create_invoice self sess h invoice_data =
     (let (payload, h1) = alloc h [(''invoice'', PDict (InvoiceDTO_model_dump invoice_data))]
      in and_then (call_make_request self sess h1 ''POST'' endpoint_base [(''json_data'', payload)])
           InvoiceDTO_model_validate)"

definition get_invoice :: "client \<Rightarrow> session \<Rightarrow> heap \<Rightarrow> int \<Rightarrow> InvoiceDTO outcome" where
  "get_invoice self sess h invoice_id =
     (let endpoint = ''/invoices/'' @ str_int invoice_id @ ''.json''
      in and_then (call_make_request self sess h ''GET'' endpoint []) InvoiceDTO_model_validate)"

text \<open>
  Lines 33 to 45 of \<open>list_invoices\<close>: the query parameters. \<open>kwargs\<close> holds the
  keywords that are not parameters of \<open>list_invoices\<close>, so none of its keys is
  \<open>period\<close>, \<open>date_from\<close>, \<open>date_to\<close>, \<open>page\<close>, \<open>per_page\<close> or \<open>include_positions\<close>.
\<close>

definition list_invoices_params ::
  "string \<Rightarrow> date option \<Rightarrow> date option \<Rightarrow> int \<Rightarrow> int \<Rightarrow> bool \<Rightarrow> dict \<Rightarrow> dict" where
  "list_invoices_params period date_from date_to page per_page include_positions kwargs =
     (let params = [(''period'', PStr period), (''page'', PInt page),
                    (''per_page'', PInt (min per_page 100))];
          params = (case date_from of
                      Some d \<Rightarrow> AList.update ''date_from'' (PStr (isoformat d)) params
                    | None \<Rightarrow> params);
          params = (case date_to of
                      Some d \<Rightarrow> AList.update ''date_to'' (PStr (isoformat d)) params
                    | None \<Rightarrow> params);
          params = (if include_positions
                    then AList.update ''include_positions'' (PStr ''true'') params
                    else params)
      in fold (\<lambda>(k, v). AList.update k v) kwargs params)"

text \<open>
  \<open>list_invoices\<close> passes the parameters under the keyword \<open>params\<close>, and ends with a
  bare \<open>return\<close>.
\<close>

definition list_invoices ::
  "client \<Rightarrow> session \<Rightarrow> heap \<Rightarrow> string \<Rightarrow> date option \<Rightarrow> date option \<Rightarrow> int \<Rightarrow> int \<Rightarrow> bool \<Rightarrow> dict
     \<Rightarrow> pyvalue outcome" where
  "list_invoices self sess h period date_from date_to page per_page include_positions kwargs =
     (let (params, h1) = alloc h (list_invoices_params period date_from date_to page per_page
                                    include_positions kwargs)
      in and_then (call_make_request self sess h1 ''GET'' endpoint_base [(''params'', params)])
           (\<lambda>response_data. Inr PNone))"

text \<open>
  Modelled from the spec: the type of \<open>update_data\<close> is missing from the source, which
  reads \<open>Union]\<close>. The body tells an \<open>InvoiceDTO\<close> from anything else, which the comment
  and the specification call a raw dict of the fields to update.
\<close>

datatype update_data = Document InvoiceDTO | RawDict dict

definition update_invoice :: "client \<Rightarrow> session \<Rightarrow> heap \<Rightarrow> int \<Rightarrow> update_data \<Rightarrow> InvoiceDTO outcome" where
  "update_invoice self sess h invoice_id data =
     (let endpoint = ''/invoices/'' @ str_int invoice_id @ ''.json'';
          (payload, h1) = alloc h (case data of
                                     Document d \<Rightarrow> [(''invoice'', PDict (InvoiceDTO_model_dump d))]
                                   | RawDict raw \<Rightarrow> [(''invoice'', PDict raw)])
      in and_then (call_make_request self sess h1 ''PUT'' endpoint [(''json_data'', payload)])
           InvoiceDTO_model_validate)"

definition delete_invoice_permanently :: "client \<Rightarrow> session \<Rightarrow> heap \<Rightarrow> int \<Rightarrow> bool outcome" where
  "delete_invoice_permanently self sess h invoice_id =
     (let endpoint = ''/invoices/'' @ str_int invoice_id @ ''.json''
      in and_then (call_make_request self sess h ''DELETE'' endpoint []) (\<lambda>_. Inr True))"

text \<open>
  \<open>void_invoice(invoice_id, reason=None)\<close>: the branch on \<open>reason\<close> is \<open>pass\<close>, and the
  parameters go under the keyword \<open>params\<close>.
\<close>

definition void_invoice :: "client \<Rightarrow> session \<Rightarrow> heap \<Rightarrow> int \<Rightarrow> string option \<Rightarrow> bool outcome" where
  "void_invoice self sess h invoice_id reason =
     (let endpoint = ''/invoices/'' @ str_int invoice_id @ ''/change_status.json'';
          (params, h1) = alloc h [(''status'', PStr VOID_STATUS)]
      in and_then (call_make_request self sess h1 ''POST'' endpoint [(''params'', params)])
           (\<lambda>_. Inr True))"

text \<open>
  What a call copies from an optional argument: \<open>None\<close> and the empty dict both give
  the empty dict.
\<close>

definition arg_dict :: "heap \<Rightarrow> addr option \<Rightarrow> dict" where
  "arg_dict h x = (case x of None \<Rightarrow> [] | Some a \<Rightarrow> deref h a)"

subsection \<open>Sessions used in the examples\<close>

definition refusing_session :: session where
  "refusing_session req = RequestException"

definition reply_with :: "response \<Rightarrow> session" where
  "reply_with r req = Response r"

definition acme :: client where
  "acme = init_client ''acme'' ''secret'' 10"

definition echo_session :: session where
  "echo_session req =
     Response \<lparr>status_code = 200, content = ''echo'', body_text = ''echo'',
               json = map_of (req_json req) ''invoice''\<rparr>"

definition echo_body_session :: session where
  "echo_body_session req =
     Response \<lparr>status_code = 200, content = ''echo'', body_text = ''echo'',
               json = Some (PDict (req_json req))\<rparr>"

text \<open>
  \<open>echo_session\<close> is the mocked service of the round trip: it answers 200 with the
  document it was sent, unwrapped, as the service answers with unwrapped objects.
  \<open>echo_body_session\<close> answers with the whole body it was sent.
\<close>

subsection \<open>Documents used in the examples\<close>

text \<open>The position and the invoice that \<open>example.py\<close> builds (on a fixed day).\<close>

definition example_position :: InvoicePositionDTO where
  "example_position =
     \<lparr>pos_id = None, pos_name = ''Usluga programistyczna'', pos_quantity = NFloat (Finite 1),
      pos_total_price_gross = PriceFloat (Finite 1230), pos_tax = VatFloat (Finite 23),
      pos_kind = None, pos_correction_before_attributes = None,
      pos_correction_after_attributes = None\<rparr>"

definition example_invoice :: InvoiceDTO where
  "example_invoice =
     \<lparr>inv_kind = Vat, inv_sell_date = Date 2024 1 15, inv_issue_date = Date 2024 1 15,
      inv_seller_name = None, inv_seller_tax_no = None,
      inv_buyer_name = Some ''Nowy Klient'', inv_buyer_tax_no = Some ''1234567890'',
      inv_buyer_email = None, inv_payment_to = None, inv_payment_method = Some ''Przelew'',
      inv_positions = [example_position], inv_correction_reason = None,
      inv_invoice_id = None, inv_from_invoice_id = None, inv_id = None,
      inv_created_at = None, inv_updated_at = None, inv_invoice_url = None\<rparr>"

text \<open>
  A correcting invoice with one position, given its payment method and the tax and the
  kind of the position's snapshot after the correction.
\<close>

definition correction_position :: "pyfloat option \<Rightarrow> string option \<Rightarrow> InvoicePositionDTO" where
  "correction_position after_tax after_kind =
     \<lparr>pos_id = None, pos_name = ''Usluga'', pos_quantity = NInt 1,
      pos_total_price_gross = PriceFloat (Finite 100), pos_tax = VatInt 23,
      pos_kind = Some ''correction'',
      pos_correction_before_attributes =
        Some \<lparr>ca_name = Some ''Usluga'', ca_quantity = Some (NInt 2),
              ca_total_price_gross = Some (PriceFloat (Finite 200)),
              ca_tax = Some (Finite 23), ca_kind = Some ''correction_before''\<rparr>,
      pos_correction_after_attributes =
        Some \<lparr>ca_name = Some ''Usluga'', ca_quantity = Some (NInt 1),
              ca_total_price_gross = Some (PriceFloat (Finite 100)),
              ca_tax = after_tax, ca_kind = after_kind\<rparr>\<rparr>"

definition correction_invoice ::
  "string option \<Rightarrow> pyfloat option \<Rightarrow> string option \<Rightarrow> InvoiceDTO" where
  "correction_invoice payment_method after_tax after_kind =
     \<lparr>inv_kind = Correction, inv_sell_date = Date 2024 1 15, inv_issue_date = Date 2024 1 15,
      inv_seller_name = None, inv_seller_tax_no = None,
      inv_buyer_name = Some ''Nowy Klient'', inv_buyer_tax_no = None,
      inv_buyer_email = None, inv_payment_to = None, inv_payment_method = payment_method,
      inv_positions = [correction_position after_tax after_kind],
      inv_correction_reason = Some ''Zwrot'',
      inv_invoice_id = Some 7, inv_from_invoice_id = None, inv_id = None,
      inv_created_at = None, inv_updated_at = None, inv_invoice_url = None\<rparr>"

section \<open>Valid documents and what a dump keeps\<close>

text \<open>
  What validation guarantees of a constructed document: at least one position, and a
  positive quantity in every position.
\<close>

definition valid_position :: "InvoicePositionDTO \<Rightarrow> bool" where
  "valid_position p = gt0 (pos_quantity p)"

definition valid_invoice :: "InvoiceDTO \<Rightarrow> bool" where
  "valid_invoice d = (inv_positions d \<noteq> [] \<and> list_all valid_position (inv_positions d))"

text \<open>
  A dump leaves out the fields that hold \<open>None\<close> and the excluded field; parsing fills a
  missing field with its default. So a dump keeps a document when no field with a
  default other than \<open>None\<close> holds \<open>None\<close>, and the excluded field holds its default:
  the tax and the kind of a correction snapshot, and the payment method of the invoice.
\<close>

definition correction_dump_faithful :: "CorrectionAttributesDTO \<Rightarrow> bool" where
  "correction_dump_faithful c = (ca_tax c \<noteq> None \<and> ca_kind c = Some ''correction_before'')"

definition position_dump_faithful :: "InvoicePositionDTO \<Rightarrow> bool" where
  "position_dump_faithful p =
     ((case pos_correction_before_attributes p of
         None \<Rightarrow> True | Some c \<Rightarrow> correction_dump_faithful c) \<and>
      (case pos_correction_after_attributes p of
         None \<Rightarrow> True | Some c \<Rightarrow> correction_dump_faithful c))"

definition invoice_dump_faithful :: "InvoiceDTO \<Rightarrow> bool" where
  "invoice_dump_faithful d =
     (inv_payment_method d \<noteq> None \<and> list_all position_dump_faithful (inv_positions d))"

section \<open>Properties of the dispatcher\<close>

lemma copy_or_empty_eq:
  "copy_or_empty h x = (length h, h @ [arg_dict h x])"
  by (auto simp: copy_or_empty_def alloc_def arg_dict_def split: option.splits)

lemma arg_dict_append:
  "valid_ref h x \<Longrightarrow> arg_dict (h @ hs) x = arg_dict h x"
  by (auto simp: arg_dict_def valid_ref_def deref_def nth_append split: option.splits)

text \<open>The three ways a request is prepared, by the method.\<close>

lemma prepare_request_eq:
  assumes "valid_ref h request_params" "valid_ref h json_data"
  shows "prepare_request self h method endpoint request_params json_data =
     (if method \<in> set body_token_methods then
        (h @ [arg_dict h request_params,
              AList.update ''api_token'' (PStr (api_token self)) (arg_dict h json_data)],
         \<lparr>req_method = method, req_url = base_url self @ endpoint,
          req_params = arg_dict h request_params,
          req_json = AList.update ''api_token'' (PStr (api_token self)) (arg_dict h json_data),
          req_timeout = timeout self\<rparr>)
      else if method \<in> set query_token_methods then
        (h @ [AList.update ''api_token'' (PStr (api_token self)) (arg_dict h request_params),
              arg_dict h json_data],
         \<lparr>req_method = method, req_url = base_url self @ endpoint,
          req_params = AList.update ''api_token'' (PStr (api_token self)) (arg_dict h request_params),
          req_json = arg_dict h json_data,
          req_timeout = timeout self\<rparr>)
      else
        (h @ [arg_dict h request_params, arg_dict h json_data],
         \<lparr>req_method = method, req_url = base_url self @ endpoint,
          req_params = arg_dict h request_params,
          req_json = arg_dict h json_data,
          req_timeout = timeout self\<rparr>))"
  using assms
  by (simp add: prepare_request_def copy_or_empty_eq arg_dict_append setitem_def deref_def
      nth_append list_update_append valid_ref_def Let_def)

lemma prepare_request_frame:
  "a < length h \<Longrightarrow> fst (prepare_request self h method endpoint rp jd) ! a = h ! a"
  by (simp add: prepare_request_def copy_or_empty_eq setitem_def nth_append Let_def nth_list_update)

lemma prepare_request_length:
  "length (fst (prepare_request self h method endpoint rp jd)) = length h + 2"
  by (simp add: prepare_request_def copy_or_empty_eq setitem_def Let_def)

lemma sent_make_request:
  "sent (make_request self sess h method endpoint rp jd) =
     [snd (prepare_request self h method endpoint rp jd)]"
  by (simp add: make_request_def split_beta Let_def)

lemma heap_after_make_request:
  "heap_after (make_request self sess h method endpoint rp jd) =
     fst (prepare_request self h method endpoint rp jd)"
  by (simp add: make_request_def split_beta Let_def)

lemma result_make_request:
  "result (make_request self sess h method endpoint rp jd) =
     (case sess (snd (prepare_request self h method endpoint rp jd)) of
        RequestException \<Rightarrow>
          Inl (Api (init_error FakturowniaAPIException NetworkErrorMsg None PNone))
      | Response r \<Rightarrow> handle_response r)"
  by (simp add: make_request_def split_beta Let_def)

lemma map_of_update_same: "map_of (AList.update k v al) k = Some v"
  by (simp add: update_conv')

text \<open>
  C1, as the code has it. For POST and PUT the body sent carries the token under
  \<open>api_token\<close> and the query string sent is the caller's own, copied: the dispatcher adds
  nothing to it. For GET and DELETE the query string sent carries the token under
  \<open>api_token\<close> and the body sent is the caller's own, copied. So the token is absent from
  the other place exactly when the caller did not put an \<open>api_token\<close> key there.
\<close>

theorem token_injected_by_method:
  assumes "valid_ref h request_params" and "valid_ref h json_data"
  shows "\<exists>req. sent (make_request self sess h method endpoint request_params json_data) = [req] \<and>
     (method = ''POST'' \<or> method = ''PUT'' \<longrightarrow>
        map_of (req_json req) ''api_token'' = Some (PStr (api_token self)) \<and>
        req_params req = arg_dict h request_params \<and>
        (''api_token'' \<notin> fst ` set (arg_dict h request_params) \<longrightarrow>
           ''api_token'' \<notin> fst ` set (req_params req))) \<and>
     (method = ''GET'' \<or> method = ''DELETE'' \<longrightarrow>
        map_of (req_params req) ''api_token'' = Some (PStr (api_token self)) \<and>
        req_json req = arg_dict h json_data \<and>
        (''api_token'' \<notin> fst ` set (arg_dict h json_data) \<longrightarrow>
           ''api_token'' \<notin> fst ` set (req_json req)))"
  using assms
  by (auto simp: sent_make_request prepare_request_eq body_token_methods_def
      query_token_methods_def map_of_update_same)

theorem token_injected_by_method_witness:
  "valid_ref [[(''invoice'', PDict [])]] None \<and> valid_ref [[(''invoice'', PDict [])]] (Some 0) \<and>
   (\<exists>req. sent (make_request acme refusing_session [[(''invoice'', PDict [])]]
                  ''POST'' ''/invoices.json'' None (Some 0)) = [req] \<and>
      map_of (req_json req) ''api_token'' = Some (PStr ''secret'') \<and>
      req_params req = [] \<and> ''api_token'' \<notin> fst ` set (req_params req))"
  using token_injected_by_method [of "[[(''invoice'', PDict [])]]" None "Some 0" acme
      refusing_session "''POST''" "''/invoices.json''"]
  by (simp add: valid_ref_def acme_def init_client_def arg_dict_def)

text \<open>
  C1 as stated fails when the caller's own query parameters hold the token: a POST
  with \<open>request_params = {'api_token': 'secret'}\<close> sends the token in the query string
  too.
\<close>

theorem token_in_query_of_post_counterexample:
  "map_of (req_params (hd (sent (make_request acme refusing_session
      [[(''api_token'', PStr ''secret'')]] ''POST'' ''/invoices.json'' (Some 0) None))))
     ''api_token'' = Some (PStr (api_token acme))"
  by (simp add: sent_make_request prepare_request_eq valid_ref_def body_token_methods_def
      arg_dict_def deref_def acme_def init_client_def)

text \<open>
  C2, as the code has it. A response outside 200..299 whose body is empty or decodes is
  raised as the error class of its status, with the status code; the details are the
  decoded body when that is a true value, and the empty dict otherwise (no body, or a
  body that decodes to \<open>null\<close>, \<open>false\<close>, \<open>0\<close>, an empty string, list or object).
\<close>

theorem error_class_by_status:
  assumes "sess (snd (prepare_request self h method endpoint request_params json_data)) = Response r"
    and "\<not> (200 \<le> status_code r \<and> status_code r < 300)"
    and "content r = [] \<or> json r \<noteq> None"
  shows "\<exists>e. result (make_request self sess h method endpoint request_params json_data) = Inl (Api e) \<and>
     (status_code r = 400 \<longrightarrow> err_class e = ValidationError) \<and>
     (status_code r = 401 \<or> status_code r = 403 \<longrightarrow> err_class e = AuthenticationError) \<and>
     (status_code r = 404 \<longrightarrow> err_class e = ResourceNotFoundError) \<and>
     (500 \<le> status_code r \<and> status_code r < 600 \<longrightarrow> err_class e = ServerError) \<and>
     (status_code r \<notin> {400, 401, 403, 404} \<and> \<not> (500 \<le> status_code r \<and> status_code r < 600) \<longrightarrow>
        err_class e = FakturowniaAPIException) \<and>
     err_status_code e = Some (status_code r) \<and>
     (content r = [] \<longrightarrow> err_details e = PDict []) \<and>
     (\<forall>v. content r \<noteq> [] \<and> json r = Some v \<longrightarrow>
        err_details e = (if truthy v then v else PDict []))"
  using assms
  by (auto simp: result_make_request handle_response_def init_error_def truthy_def Let_def)

theorem error_class_by_status_witness:
  "reply_with \<lparr>status_code = 404, content = ''{\"error\":\"not found\"}'',
       body_text = ''{\"error\":\"not found\"}'',
       json = Some (PDict [(''error'', PStr ''not found'')])\<rparr>
     (snd (prepare_request acme [] ''GET'' ''/invoices/42.json'' None None)) =
   Response \<lparr>status_code = 404, content = ''{\"error\":\"not found\"}'',
       body_text = ''{\"error\":\"not found\"}'',
       json = Some (PDict [(''error'', PStr ''not found'')])\<rparr> \<and>
   (\<exists>e. result (make_request acme
       (reply_with \<lparr>status_code = 404, content = ''{\"error\":\"not found\"}'',
          body_text = ''{\"error\":\"not found\"}'',
          json = Some (PDict [(''error'', PStr ''not found'')])\<rparr>)
       [] ''GET'' ''/invoices/42.json'' None None) = Inl (Api e) \<and>
      err_class e = ResourceNotFoundError \<and> err_status_code e = Some 404 \<and>
      err_details e = PDict [(''error'', PStr ''not found'')])"
  using error_class_by_status [of
      "reply_with \<lparr>status_code = 404, content = ''{\"error\":\"not found\"}'',
          body_text = ''{\"error\":\"not found\"}'',
          json = Some (PDict [(''error'', PStr ''not found'')])\<rparr>"
      acme "[]" "''GET''" "''/invoices/42.json''" None None
      "\<lparr>status_code = 404, content = ''{\"error\":\"not found\"}'',
          body_text = ''{\"error\":\"not found\"}'',
          json = Some (PDict [(''error'', PStr ''not found'')])\<rparr>"]
  by (simp add: reply_with_def truthy_def)

text \<open>
  C2 as stated fails in two ways. A 404 whose body is the JSON text \<open>[]\<close> decodes to the
  empty list, and the error raised carries the empty dict as details. A 404 whose body is
  not JSON raises no error of the taxonomy at all.
\<close>

theorem error_mapping_counterexample:
  "result (make_request acme
      (reply_with \<lparr>status_code = 404, content = ''[]'', body_text = ''[]'',
         json = Some (PList [])\<rparr>)
      [] ''GET'' ''/invoices/42.json'' None None) =
     Inl (Api \<lparr>err_class = ResourceNotFoundError, err_message = ApiErrorMsg 404 ''[]'',
         err_status_code = Some 404, err_details = PDict []\<rparr>) \<and>
   PDict [] \<noteq> PList [] \<and>
   result (make_request acme
      (reply_with \<lparr>status_code = 404, content = ''<html>Not Found</html>'',
         body_text = ''<html>Not Found</html>'', json = None\<rparr>)
      [] ''GET'' ''/invoices/42.json'' None None) = Inl JSONDecodeError"
  by (simp add: result_make_request reply_with_def handle_response_def init_error_def truthy_def)

text \<open>
  C9. A call leaves every dict object that existed before it as it was: the two copies
  are new objects, and the token is assigned into one of them. In particular the
  caller's \<open>request_params\<close> and \<open>json_data\<close> are unchanged.
\<close>

theorem callers_mappings_unchanged:
  "length h \<le> length (heap_after (make_request self sess h method endpoint request_params json_data)) \<and>
   (\<forall>a < length h.
      deref (heap_after (make_request self sess h method endpoint request_params json_data)) a =
      deref h a)"
  by (simp add: heap_after_make_request deref_def prepare_request_frame prepare_request_length)

theorem callers_mappings_unchanged_witness:
  "(0::nat) < length [[(''invoice'', PDict [])], [(''status'', PStr ''x'')]] \<and>
   deref (heap_after (make_request acme refusing_session
            [[(''invoice'', PDict [])], [(''status'', PStr ''x'')]]
            ''POST'' ''/invoices.json'' (Some 1) (Some 0))) 0 = [(''invoice'', PDict [])]"
  using callers_mappings_unchanged [of "[[(''invoice'', PDict [])], [(''status'', PStr ''x'')]]"
      acme refusing_session "''POST''" "''/invoices.json''" "Some 1" "Some 0"]
  by (simp add: deref_def)

text \<open>
  C10. When the status is outside 200..299 and the body is not empty and does not
  decode, what the caller gets is the decoder's own exception: it is not an error of the
  taxonomy and carries neither the status code nor details.
\<close>

theorem undecodable_error_body_raises_decode_exception:
  assumes "sess (snd (prepare_request self h method endpoint request_params json_data)) = Response r"
    and "\<not> (200 \<le> status_code r \<and> status_code r < 300)"
    and "content r \<noteq> []"
    and "json r = None"
  shows "result (make_request self sess h method endpoint request_params json_data) = Inl JSONDecodeError \<and>
     (\<forall>e. result (make_request self sess h method endpoint request_params json_data) \<noteq> Inl (Api e))"
  using assms by (auto simp: result_make_request handle_response_def)

theorem undecodable_error_body_raises_decode_exception_witness:
  "reply_with \<lparr>status_code = 502, content = ''<html>Bad Gateway</html>'',
       body_text = ''<html>Bad Gateway</html>'', json = None\<rparr>
     (snd (prepare_request acme [] ''GET'' ''/invoices/42.json'' None None)) =
   Response \<lparr>status_code = 502, content = ''<html>Bad Gateway</html>'',
       body_text = ''<html>Bad Gateway</html>'', json = None\<rparr> \<and>
   result (make_request acme
      (reply_with \<lparr>status_code = 502, content = ''<html>Bad Gateway</html>'',
         body_text = ''<html>Bad Gateway</html>'', json = None\<rparr>)
      [] ''GET'' ''/invoices/42.json'' None None) = Inl JSONDecodeError"
  using undecodable_error_body_raises_decode_exception [of
      "reply_with \<lparr>status_code = 502, content = ''<html>Bad Gateway</html>'',
         body_text = ''<html>Bad Gateway</html>'', json = None\<rparr>"
      acme "[]" "''GET''" "''/invoices/42.json''" None None
      "\<lparr>status_code = 502, content = ''<html>Bad Gateway</html>'',
         body_text = ''<html>Bad Gateway</html>'', json = None\<rparr>"]
  by (simp add: reply_with_def)

section \<open>Properties of the invoices endpoint\<close>

text \<open>
  \<open>_make_request\<close> has no parameter \<open>params\<close>, so a call that passes that keyword raises
  \<open>TypeError\<close> and hands nothing to the session.
\<close>

lemma call_make_request_params:
  "call_make_request self sess h method endpoint [(''params'', a)] =
     \<lparr>heap_after = h, sent = [], result = Inl TypeError\<rparr>"
  by (simp add: call_make_request_def)

lemma list_invoices_always_raises:
  "sent (list_invoices self sess h period date_from date_to page per_page include_positions kwargs) = []"
  "result (list_invoices self sess h period date_from date_to page per_page include_positions kwargs) =
     Inl TypeError"
  by (simp_all add: list_invoices_def alloc_def and_then_def call_make_request_params)

lemma void_invoice_always_raises:
  "sent (void_invoice self sess h invoice_id reason) = []"
  "result (void_invoice self sess h invoice_id reason) = Inl TypeError"
  by (simp_all add: void_invoice_def alloc_def and_then_def call_make_request_params)

lemma map_of_fold_update_other:
  "k \<notin> fst ` set kwargs \<Longrightarrow>
     map_of (fold (\<lambda>(k, v). AList.update k v) kwargs params) k = map_of params k"
  by (induction kwargs arbitrary: params) (auto simp: update_conv')

lemma per_page_of_list_invoices_params:
  assumes "''per_page'' \<notin> fst ` set kwargs"
  shows "map_of (list_invoices_params period date_from date_to page per_page include_positions kwargs)
     ''per_page'' = Some (PInt (min per_page 100))"
  using assms
  by (simp add: list_invoices_params_def map_of_fold_update_other update_conv' Let_def
      split: option.split)

lemma str_int_42: "str_int 42 = ''42''"
  by (simp add: str_int_def str_nat.simps digit_def)

lemma void_request_under_request_params:
  "sent (make_request self sess (h @ [[(''status'', PStr VOID_STATUS)]]) ''POST''
      (''/invoices/'' @ str_int invoice_id @ ''/change_status.json'') (Some (length h)) None) =
   [\<lparr>req_method = ''POST'',
     req_url = base_url self @ ''/invoices/'' @ str_int invoice_id @ ''/change_status.json'',
     req_params = [(''status'', PStr ''anulowana'')],
     req_json = [(''api_token'', PStr (api_token self))],
     req_timeout = timeout self\<rparr>]"
  by (simp add: sent_make_request prepare_request_eq valid_ref_def body_token_methods_def
      arg_dict_def deref_def VOID_STATUS_def)

text \<open>
  C4 fails on the code. A listing that the service would answer with 200 and one entry
  raises \<open>TypeError\<close> at the call of the dispatcher, and no GET is made. (Past that
  call, \<open>list_invoices\<close> ends with a bare \<open>return\<close>, whose value is \<open>None\<close>.)
\<close>

theorem listing_returns_no_entries:
  "sent (list_invoices acme
      (reply_with \<lparr>status_code = 200, content = ''[{\"id\": 7}]'', body_text = ''[{\"id\": 7}]'',
         json = Some (PList [PDict [(''id'', PInt 7)]])\<rparr>)
      [] ''this_month'' None None 1 100 False []) = [] \<and>
   result (list_invoices acme
      (reply_with \<lparr>status_code = 200, content = ''[{\"id\": 7}]'', body_text = ''[{\"id\": 7}]'',
         json = Some (PList [PDict [(''id'', PInt 7)]])\<rparr>)
      [] ''this_month'' None None 1 100 False []) = Inl TypeError"
  by (simp add: list_invoices_always_raises)

text \<open>
  C6 fails on the code. \<open>list_invoices(per_page=500)\<close> builds parameters whose
  \<open>per_page\<close> is 100 (see \<open>per_page_of_list_invoices_params\<close>), and then raises
  \<open>TypeError\<close> at the call of the dispatcher: no \<open>per_page\<close> is transmitted.
\<close>

theorem per_page_500_is_not_transmitted:
  "sent (list_invoices acme
      (reply_with \<lparr>status_code = 200, content = ''[]'', body_text = ''[]'', json = Some (PList [])\<rparr>)
      [] ''this_month'' None None 1 500 False []) = [] \<and>
   result (list_invoices acme
      (reply_with \<lparr>status_code = 200, content = ''[]'', body_text = ''[]'', json = Some (PList [])\<rparr>)
      [] ''this_month'' None None 1 500 False []) = Inl TypeError"
  by (simp add: list_invoices_always_raises)

text \<open>
  C8 fails on the code. \<open>void_invoice(42)\<close> raises \<open>TypeError\<close> at the call of the
  dispatcher and issues no request. (\<open>void_request_under_request_params\<close> is the
  request the dispatcher makes of the same arguments passed as \<open>request_params\<close>.)
\<close>

theorem void_42_issues_no_request:
  "sent (void_invoice acme
      (reply_with \<lparr>status_code = 200, content = ''{}'', body_text = ''{}'', json = Some (PDict [])\<rparr>)
      [] 42 None) = [] \<and>
   result (void_invoice acme
      (reply_with \<lparr>status_code = 200, content = ''{}'', body_text = ''{}'', json = Some (PDict [])\<rparr>)
      [] 42 None) = Inl TypeError"
  by (simp add: void_invoice_always_raises)

section \<open>Properties of the models\<close>

lemma map_of_entry_skip: "k' \<noteq> k \<Longrightarrow> map_of (entry k v @ xs) k' = map_of xs k'"
  by (cases v) (simp_all add: entry_def)

lemma map_of_entry_hit:
  "map_of (entry k v @ xs) k = (case v of None \<Rightarrow> map_of xs k | Some x \<Rightarrow> Some x)"
  by (cases v) (simp_all add: entry_def)

lemma map_of_entry_last: "map_of (entry k v) k' = (if k' = k then v else None)"
  by (cases v) (simp_all add: entry_def)

lemmas lookup_simps = map_of_entry_skip map_of_entry_hit map_of_entry_last

lemma correction_dump_lookups:
  "map_of (CorrectionAttributesDTO_model_dump c) ''name'' = map_option PStr (ca_name c)"
  "map_of (CorrectionAttributesDTO_model_dump c) ''quantity'' = map_option number_value (ca_quantity c)"
  "map_of (CorrectionAttributesDTO_model_dump c) ''total_price_gross'' = map_option price_value (ca_total_price_gross c)"
  "map_of (CorrectionAttributesDTO_model_dump c) ''tax'' = map_option PFloat (ca_tax c)"
  "map_of (CorrectionAttributesDTO_model_dump c) ''kind'' = None"
  by (simp_all add: CorrectionAttributesDTO_model_dump_def lookup_simps del: map_of_append split: option.split)

lemma position_dump_lookups:
  "map_of (InvoicePositionDTO_model_dump p) ''id'' = map_option PInt (pos_id p)"
  "map_of (InvoicePositionDTO_model_dump p) ''name'' = Some (PStr (pos_name p))"
  "map_of (InvoicePositionDTO_model_dump p) ''quantity'' = Some (number_value (pos_quantity p))"
  "map_of (InvoicePositionDTO_model_dump p) ''total_price_gross'' = Some (price_value (pos_total_price_gross p))"
  "map_of (InvoicePositionDTO_model_dump p) ''tax'' = Some (vat_rate_value (pos_tax p))"
  "map_of (InvoicePositionDTO_model_dump p) ''kind'' = map_option PStr (pos_kind p)"
  "map_of (InvoicePositionDTO_model_dump p) ''correction_before_attributes'' =
     map_option (PDict \<circ> CorrectionAttributesDTO_model_dump) (pos_correction_before_attributes p)"
  "map_of (InvoicePositionDTO_model_dump p) ''correction_after_attributes'' =
     map_option (PDict \<circ> CorrectionAttributesDTO_model_dump) (pos_correction_after_attributes p)"
  by (simp_all add: InvoicePositionDTO_model_dump_def lookup_simps del: map_of_append split: option.split)

lemma invoice_dump_lookups:
  "map_of (InvoiceDTO_model_dump d) ''kind'' = Some (PStr (kind_literal (inv_kind d)))"
  "map_of (InvoiceDTO_model_dump d) ''sell_date'' = Some (PDate (inv_sell_date d))"
  "map_of (InvoiceDTO_model_dump d) ''issue_date'' = Some (PDate (inv_issue_date d))"
  "map_of (InvoiceDTO_model_dump d) ''seller_name'' = map_option PStr (inv_seller_name d)"
  "map_of (InvoiceDTO_model_dump d) ''seller_tax_no'' = map_option PStr (inv_seller_tax_no d)"
  "map_of (InvoiceDTO_model_dump d) ''buyer_name'' = map_option PStr (inv_buyer_name d)"
  "map_of (InvoiceDTO_model_dump d) ''buyer_tax_no'' = map_option PStr (inv_buyer_tax_no d)"
  "map_of (InvoiceDTO_model_dump d) ''buyer_email'' = map_option PStr (inv_buyer_email d)"
  "map_of (InvoiceDTO_model_dump d) ''payment_to'' = map_option PDate (inv_payment_to d)"
  "map_of (InvoiceDTO_model_dump d) ''payment_method'' = map_option PStr (inv_payment_method d)"
  "map_of (InvoiceDTO_model_dump d) ''positions'' =
     Some (PList (map (PDict \<circ> InvoicePositionDTO_model_dump) (inv_positions d)))"
  "map_of (InvoiceDTO_model_dump d) ''correction_reason'' = map_option PStr (inv_correction_reason d)"
  "map_of (InvoiceDTO_model_dump d) ''invoice_id'' = map_option PInt (inv_invoice_id d)"
  "map_of (InvoiceDTO_model_dump d) ''from_invoice_id'' = map_option PInt (inv_from_invoice_id d)"
  "map_of (InvoiceDTO_model_dump d) ''id'' = map_option PInt (inv_id d)"
  "map_of (InvoiceDTO_model_dump d) ''created_at'' = map_option PStr (inv_created_at d)"
  "map_of (InvoiceDTO_model_dump d) ''updated_at'' = map_option PStr (inv_updated_at d)"
  "map_of (InvoiceDTO_model_dump d) ''invoice_url'' = map_option PStr (inv_invoice_url d)"
  by (simp_all add: InvoiceDTO_model_dump_def lookup_simps del: map_of_append split: option.split)

lemma as_number_value [simp]: "as_number (number_value q) = Some q"
  by (cases q) (simp_all add: as_number_def number_value_def)

lemma as_price_value [simp]: "as_price (price_value p) = Some p"
  by (cases p) (simp_all add: as_price_def price_value_def)

lemma as_vat_rate_value [simp]: "as_vat_rate (vat_rate_value t) = Some t"
  by (cases t) (simp_all add: as_vat_rate_def vat_rate_value_def)

lemma as_kind_literal [simp]: "as_kind (PStr (kind_literal k)) = Some k"
  by (cases k) (simp_all add: as_kind_def all_kinds_def)

lemma number_value_not_None [simp]: "number_value q \<noteq> PNone"
  by (cases q) (simp_all add: number_value_def)

lemma price_value_not_None [simp]: "price_value p \<noteq> PNone"
  by (cases p) (simp_all add: price_value_def)

lemma optional_Some:
  "x \<noteq> PNone \<Longrightarrow> optional conv dflt (Some x) = map_option Some (conv x)"
  by (cases x) (simp_all add: optional_def)

lemma optional_dumped:
  assumes "\<And>x. conv (f x) = Some x" and "\<And>x. f x \<noteq> PNone"
  shows "optional conv None (map_option f v) = Some v"
proof (cases v)
  case None
  then show ?thesis by (simp add: optional_def)
next
  case (Some x)
  then show ?thesis using assms by (simp add: optional_Some)
qed

lemma optional_simps [simp]:
  "optional as_str None (map_option PStr s) = Some s"
  "optional as_int None (map_option PInt i) = Some i"
  "optional as_date None (map_option PDate dt) = Some dt"
  "optional as_number None (map_option number_value q) = Some q"
  "optional as_price None (map_option price_value pr) = Some pr"
  by (rule optional_dumped; simp add: as_str_def as_int_def as_date_def)+

lemma correction_round_trip:
  assumes "correction_dump_faithful c"
  shows "CorrectionAttributesDTO_validate (CorrectionAttributesDTO_model_dump c) = Some c"
proof -
  from assms obtain t where t: "ca_tax c = Some t" and k: "ca_kind c = Some ''correction_before''"
    by (auto simp: correction_dump_faithful_def)
  have tax: "optional as_float (Some (Finite 23)) (map_option PFloat (ca_tax c)) = Some (ca_tax c)"
    unfolding t by (simp add: optional_Some as_float_def)
  have "CorrectionAttributesDTO_validate (CorrectionAttributesDTO_model_dump c) =
      Some \<lparr>ca_name = ca_name c, ca_quantity = ca_quantity c,
        ca_total_price_gross = ca_total_price_gross c, ca_tax = ca_tax c,
        ca_kind = Some ''correction_before''\<rparr>"
    by (simp add: CorrectionAttributesDTO_validate_def correction_dump_lookups tax)
      (simp add: optional_def)
  then show ?thesis using k by simp
qed

lemma optional_correction:
  assumes "case v of None \<Rightarrow> True | Some c \<Rightarrow> correction_dump_faithful c"
  shows "optional as_correction None (map_option (PDict \<circ> CorrectionAttributesDTO_model_dump) v) = Some v"
proof (cases v)
  case None
  then show ?thesis by (simp add: optional_def)
next
  case (Some c)
  with assms have "correction_dump_faithful c" by simp
  then show ?thesis using Some
    by (simp add: optional_Some as_correction_def correction_round_trip)
qed

lemma position_round_trip:
  assumes "valid_position p" and "position_dump_faithful p"
  shows "InvoicePositionDTO_validate (InvoicePositionDTO_model_dump p) = Some p"
proof -
  have before: "optional as_correction None
      (map_option (PDict \<circ> CorrectionAttributesDTO_model_dump) (pos_correction_before_attributes p)) =
      Some (pos_correction_before_attributes p)"
    using assms(2) by (intro optional_correction) (simp add: position_dump_faithful_def)
  have after: "optional as_correction None
      (map_option (PDict \<circ> CorrectionAttributesDTO_model_dump) (pos_correction_after_attributes p)) =
      Some (pos_correction_after_attributes p)"
    using assms(2) by (intro optional_correction) (simp add: position_dump_faithful_def)
  show ?thesis
    using assms(1)
    by (simp add: InvoicePositionDTO_validate_def position_dump_lookups before after
        required_def as_str_def valid_position_def)
qed

lemma positions_round_trip:
  assumes "list_all valid_position ps" and "list_all position_dump_faithful ps"
  shows "those (map as_position (map (PDict \<circ> InvoicePositionDTO_model_dump) ps)) = Some ps"
  using assms
  by (induction ps) (simp_all add: as_position_def position_round_trip)

lemma optional_None: "optional conv dflt None = Some dflt"
  by (simp add: optional_def)

text \<open>Parsing a dumped document gives the document back, with the default payment method
  in the place of \<open>None\<close>.\<close>

lemma invoice_dump_validate:
  assumes "valid_invoice d" and "list_all position_dump_faithful (inv_positions d)"
  shows "InvoiceDTO_validate (InvoiceDTO_model_dump d) =
     Some (d\<lparr>inv_payment_method :=
       (case inv_payment_method d of None \<Rightarrow> Some ''Przelew'' | Some m \<Rightarrow> Some m)\<rparr>)"
proof -
  have pay: "optional as_str (Some ''Przelew'') (map_option PStr (inv_payment_method d)) =
      Some (case inv_payment_method d of None \<Rightarrow> Some ''Przelew'' | Some m \<Rightarrow> Some m)"
    by (cases "inv_payment_method d") (simp_all add: optional_None optional_Some as_str_def)
  have pos: "as_positions (PList (map (PDict \<circ> InvoicePositionDTO_model_dump) (inv_positions d))) =
      Some (inv_positions d)"
    using assms positions_round_trip [of "inv_positions d"]
    by (simp add: as_positions_def valid_invoice_def)
  show ?thesis
    by (simp add: InvoiceDTO_validate_def invoice_dump_lookups pay pos
        required_def as_date_def)
qed

lemma invoice_round_trip:
  assumes "valid_invoice d" and "invoice_dump_faithful d"
  shows "InvoiceDTO_validate (InvoiceDTO_model_dump d) = Some d"
proof -
  from assms(2) obtain m where m: "inv_payment_method d = Some m"
    by (auto simp: invoice_dump_faithful_def)
  from assms have "InvoiceDTO_validate (InvoiceDTO_model_dump d) =
      Some (d\<lparr>inv_payment_method :=
        (case inv_payment_method d of None \<Rightarrow> Some ''Przelew'' | Some m \<Rightarrow> Some m)\<rparr>)"
    by (intro invoice_dump_validate) (simp_all add: invoice_dump_faithful_def)
  then show ?thesis by (simp add: m)
qed

lemma call_make_request_json_data:
  "call_make_request self sess h method endpoint [(''json_data'', a)] =
     make_request self sess h method endpoint None (Some a)"
  by (simp add: call_make_request_def)

lemma create_invoice_result:
  "result (create_invoice self sess h d) =
     (case sess \<lparr>req_method = ''POST'', req_url = base_url self @ endpoint_base, req_params = [],
                  req_json = [(''invoice'', PDict (InvoiceDTO_model_dump d)),
                              (''api_token'', PStr (api_token self))],
                  req_timeout = timeout self\<rparr> of
        RequestException \<Rightarrow>
          Inl (Api (init_error FakturowniaAPIException NetworkErrorMsg None PNone))
      | Response r \<Rightarrow>
          (case handle_response r of Inl e \<Rightarrow> Inl e | Inr v \<Rightarrow> InvoiceDTO_model_validate v))"
  by (simp add: create_invoice_def alloc_def and_then_def call_make_request_json_data
      result_make_request prepare_request_eq valid_ref_def body_token_methods_def arg_dict_def
      deref_def split: transport.split)

lemma example_position_ok:
  "valid_position example_position" "position_dump_faithful example_position"
  by (simp_all add: valid_position_def position_dump_faithful_def example_position_def gt0_def)

lemma example_invoice_ok:
  "valid_invoice example_invoice" "invoice_dump_faithful example_invoice"
  by (simp_all add: valid_invoice_def invoice_dump_faithful_def example_invoice_def example_position_ok)

lemma example_invoice_constructed:
  "InvoiceDTO_init
     [(''kind'', PStr ''vat''), (''sell_date'', PDate (Date 2024 1 15)),
      (''issue_date'', PDate (Date 2024 1 15)), (''buyer_name'', PStr ''Nowy Klient''),
      (''buyer_tax_no'', PStr ''1234567890''),
      (''positions'', PList [PDict [(''name'', PStr ''Usluga programistyczna''),
         (''quantity'', PFloat (Finite 1)), (''total_price_gross'', PFloat (Finite 1230)),
         (''tax'', PFloat (Finite 23))]])] = Inr example_invoice"
  by (simp add: InvoiceDTO_init_def InvoiceDTO_validate_def InvoicePositionDTO_validate_def
      required_def optional_def as_kind_def all_kinds_def as_date_def as_str_def as_positions_def
      as_position_def as_number_def as_price_def as_vat_rate_def gt0_def
      example_invoice_def example_position_def)

lemma those_length: "those xs = Some ys \<Longrightarrow> length ys = length xs"
  by (induction xs arbitrary: ys) (auto split: option.splits)

lemma as_positions_nonempty: "as_positions v = Some ps \<Longrightarrow> ps \<noteq> []"
  by (auto simp: as_positions_def split: pyvalue.splits if_splits dest: those_length)

lemma constructed_invoice_is_valid:
  assumes "InvoiceDTO_init data = Inr d"
  shows "inv_positions d \<noteq> []"
proof -
  from assms obtain ps where "required as_positions (map_of data ''positions'') = Some ps"
    and "inv_positions d = ps"
    by (auto simp: InvoiceDTO_init_def InvoiceDTO_validate_def
        split: option.splits Option.bind_splits)
  then show ?thesis
    by (auto simp: required_def split: option.splits dest: as_positions_nonempty)
qed

lemma constructed_position_is_valid:
  assumes "InvoicePositionDTO_init data = Inr p"
  shows "gt0 (pos_quantity p)"
  using assms
  by (auto simp: InvoicePositionDTO_init_def InvoicePositionDTO_validate_def
      split: option.splits Option.bind_splits if_splits)

lemma nonpositive_quantity_rejected:
  assumes "map_of data ''quantity'' = Some (number_value q)" and "\<not> gt0 q"
  shows "InvoicePositionDTO_init data = Inl PydanticValidationError"
proof (cases "InvoicePositionDTO_init data")
  case (Inl e)
  then show ?thesis
    by (simp add: InvoicePositionDTO_init_def split: option.splits)
next
  case (Inr p)
  then have "gt0 (pos_quantity p)" by (rule constructed_position_is_valid)
  moreover from Inr assms(1) have "pos_quantity p = q"
    by (auto simp: InvoicePositionDTO_init_def InvoicePositionDTO_validate_def required_def
        split: option.splits Option.bind_splits if_splits)
  ultimately show ?thesis using assms(2) by simp
qed

lemma correction_dump_validate:
  "CorrectionAttributesDTO_validate (CorrectionAttributesDTO_model_dump c) =
     Some (c\<lparr>ca_tax := (case ca_tax c of None \<Rightarrow> Some (Finite 23) | Some t \<Rightarrow> Some t),
             ca_kind := Some ''correction_before''\<rparr>)"
proof -
  have tax: "optional as_float (Some (Finite 23)) (map_option PFloat (ca_tax c)) =
      Some (case ca_tax c of None \<Rightarrow> Some (Finite 23) | Some t \<Rightarrow> Some t)"
    by (cases "ca_tax c") (simp_all add: optional_None optional_Some as_float_def)
  show ?thesis
    by (simp add: CorrectionAttributesDTO_validate_def correction_dump_lookups tax optional_None)
qed

text \<open>
  C3 fails on the code. The constraint \<open>gt=0\<close> of \<open>quantity\<close> has no exception: a
  position of kind \<open>correction\<close>, with both correction snapshots, and quantity \<open>-1\<close> is
  refused like any other (\<open>nonpositive_quantity_rejected\<close>), although the description
  of the field says that the quantity must be positive unless the position is a
  correction.
\<close>

theorem negative_quantity_correction_rejected:
  "InvoicePositionDTO_init
     [(''name'', PStr ''Korekta''), (''quantity'', PInt (- 1)),
      (''total_price_gross'', PFloat (Finite (- 100))), (''tax'', PInt 23),
      (''kind'', PStr ''correction''),
      (''correction_before_attributes'', PDict [(''quantity'', PInt 2)]),
      (''correction_after_attributes'', PDict [(''quantity'', PInt 1)])] =
   Inl PydanticValidationError"
  by (simp add: InvoicePositionDTO_init_def InvoicePositionDTO_validate_def required_def
      optional_def as_str_def as_number_def as_price_def as_vat_rate_def as_correction_def
      CorrectionAttributesDTO_validate_def gt0_def)

text \<open>
  C7. A document whose positions are the empty list is refused by the constructor, with
  pydantic's validation error. The constructor is a function of the data alone: it takes
  no session and makes no request, and \<open>create_invoice\<close> takes a constructed document.
\<close>

theorem empty_positions_rejected:
  assumes "map_of data ''positions'' = Some (PList [])"
  shows "InvoiceDTO_init data = Inl PydanticValidationError"
proof -
  have "required as_positions (map_of data ''positions'') = None"
    using assms by (simp add: required_def as_positions_def)
  then have "InvoiceDTO_validate data = None"
    by (simp add: InvoiceDTO_validate_def split: Option.bind_split)
  then show ?thesis by (simp add: InvoiceDTO_init_def)
qed

theorem empty_positions_rejected_witness:
  "map_of [(''kind'', PStr ''vat''), (''sell_date'', PDate (Date 2024 1 15)),
           (''issue_date'', PDate (Date 2024 1 15)), (''positions'', PList [])]
     ''positions'' = Some (PList []) \<and>
   InvoiceDTO_init [(''kind'', PStr ''vat''), (''sell_date'', PDate (Date 2024 1 15)),
           (''issue_date'', PDate (Date 2024 1 15)), (''positions'', PList [])] =
     Inl PydanticValidationError"
  using empty_positions_rejected [of "[(''kind'', PStr ''vat''),
      (''sell_date'', PDate (Date 2024 1 15)), (''issue_date'', PDate (Date 2024 1 15)),
      (''positions'', PList [])]"]
  by simp

section \<open>Round trip through create\<close>

text \<open>
  C5, as the code has it. A valid document that holds a payment method, and whose
  correction snapshots hold a tax and the default kind, comes back unchanged from
  \<open>create_invoice\<close> when the service echoes the document it was sent.
\<close>

theorem create_round_trip:
  assumes "valid_invoice d" and "invoice_dump_faithful d"
  shows "result (create_invoice self echo_session h d) = Inr d"
  using invoice_round_trip [OF assms]
  by (simp add: create_invoice_result echo_session_def handle_response_def
      InvoiceDTO_model_validate_def InvoiceDTO_init_def)

theorem create_round_trip_witness:
  "valid_invoice example_invoice \<and> invoice_dump_faithful example_invoice \<and>
   result (create_invoice acme echo_session [] example_invoice) = Inr example_invoice"
  using create_round_trip [of example_invoice acme "[]"] by (simp add: example_invoice_ok)

text \<open>
  C5 as stated fails on the fields that a dump drops. The caller's \<open>payment_method=None\<close>
  comes back as \<open>Przelew\<close>; in the snapshot after the correction, the caller's
  \<open>tax=None\<close> comes back as \<open>23.0\<close> and the caller's \<open>kind='correction_after'\<close> as
  \<open>correction_before\<close>.
\<close>

theorem create_round_trip_counterexample:
  "result (create_invoice acme echo_session []
      (correction_invoice None None (Some ''correction_after''))) =
     Inr (correction_invoice (Some ''Przelew'') (Some (Finite 23)) (Some ''correction_before'')) \<and>
   correction_invoice (Some ''Przelew'') (Some (Finite 23)) (Some ''correction_before'') \<noteq>
     correction_invoice None None (Some ''correction_after'')"
proof -
  have "InvoicePositionDTO_validate
      (InvoicePositionDTO_model_dump (correction_position None (Some ''correction_after''))) =
      Some (correction_position (Some (Finite 23)) (Some ''correction_before''))"
    by (simp add: InvoicePositionDTO_validate_def position_dump_lookups required_def as_str_def)
      (simp add: correction_position_def optional_Some as_correction_def
        correction_dump_validate gt0_def)
  then have "InvoiceDTO_validate
      (InvoiceDTO_model_dump (correction_invoice None None (Some ''correction_after''))) =
      Some (correction_invoice (Some ''Przelew'') (Some (Finite 23)) (Some ''correction_before''))"
    by (simp add: InvoiceDTO_validate_def invoice_dump_lookups required_def as_date_def)
      (simp add: correction_invoice_def optional_None as_positions_def as_position_def)
  moreover have "correction_invoice (Some ''Przelew'') (Some (Finite 23)) (Some ''correction_before'') \<noteq>
     correction_invoice None None (Some ''correction_after'')"
    by (simp add: correction_invoice_def)
  ultimately show ?thesis
    by (simp add: create_invoice_result echo_session_def handle_response_def
        InvoiceDTO_model_validate_def InvoiceDTO_init_def)
qed

text \<open>
  The echo has to be the unwrapped document: a service that echoes the body it was sent,
  with its envelope and token, makes \<open>create_invoice\<close> fail for every document.
\<close>

lemma echoed_envelope_is_rejected:
  "result (create_invoice self echo_body_session h d) = Inl PydanticValidationError"
  by (simp add: create_invoice_result echo_body_session_def handle_response_def
      InvoiceDTO_model_validate_def InvoiceDTO_init_def InvoiceDTO_validate_def required_def)

end
